theory Spec2Isabelle
  imports Main "HOL-Library.Word"
begin

section \<open>The BlockDesk contract: data\<close>

text \<open>
  The contract is written in Solidity (pragma 0.8.19). A \<^verbatim>\<open>uint256\<close> is a 256-bit word, an
  \<^verbatim>\<open>address\<close> a 160-bit word. The field \<^verbatim>\<open>id\<close> of both structs is written \<open>id_t\<close> (Ticket) and
  \<open>id_c\<close> (Comment), and the comment's \<^verbatim>\<open>createdAt\<close> is \<open>createdAt_c\<close>, since \<open>id\<close> is the identity
  function of HOL and the two structs share the name \<^verbatim>\<open>createdAt\<close>.
\<close>

type_synonym uint256 = "256 word"
type_synonym address = "160 word"

datatype TicketStatus = Open | InProgress | Resolved | Closed

datatype UserRole = User | Manager

record Ticket =
  id_t :: uint256
  creator :: address
  assignedTo :: address
  title :: string
  description :: string
  attachmentHash :: string
  status :: TicketStatus
  createdAt :: uint256
  updatedAt :: uint256

record Comment =
  id_c :: uint256
  ticketId :: uint256
  author :: address
  content :: string
  createdAt_c :: uint256

datatype event =
    TicketCreated uint256 address string
  | StatusUpdated uint256 TicketStatus address
  | TicketAssigned uint256 address address
  | TicketReopened uint256 address
  | CommentAdded uint256 uint256 address

text \<open>
  The storage of the contract. A Solidity mapping is total: a key never written reads as
  the zero value of its type, so each mapping is a function. The field \<open>emitted\<close> is the
  log of the events emitted so far; it is not storage and no function reads it.
\<close>

record BlockDesk =
  tickets :: "uint256 \<Rightarrow> Ticket"
  userRoles :: "address \<Rightarrow> UserRole"
  ticketComments :: "uint256 \<Rightarrow> Comment list"
  nextTicketId :: uint256
  nextCommentId :: uint256
  emitted :: "event list"

text \<open>What a call reads of its transaction: \<^verbatim>\<open>msg.sender\<close> and \<^verbatim>\<open>block.timestamp\<close>.\<close>

record env =
  msg_sender :: address
  block_timestamp :: uint256

text \<open>
  One constructor for each way a call reverts: the six \<^verbatim>\<open>require\<close> messages of the
  source, and the two panics of Solidity 0.8 that its statements can raise: checked
  arithmetic that overflows or underflows, and an array index out of bounds.
  \<^item> \<open>TicketDoesNotExist\<close>: "Ticket does not exist"
  \<^item> \<open>NotAuthorizedManagerOnly\<close>: "Not authorized: Manager only"
  \<^item> \<open>NotAuthorized\<close>: "Not authorized"
  \<^item> \<open>CanOnlyAssignToManagers\<close>: "Can only assign to Managers"
  \<^item> \<open>OnlyClosedOrResolved\<close>: "Only closed or resolved tickets can be reopened"
  \<^item> \<open>CommentCannotBeEmpty\<close>: "Comment cannot be empty"
\<close>

datatype error =
    TicketDoesNotExist
  | NotAuthorizedManagerOnly
  | NotAuthorized
  | CanOnlyAssignToManagers
  | OnlyClosedOrResolved
  | CommentCannotBeEmpty
  | ArithmeticOverflow
  | ArrayOutOfBounds

text \<open>The three error conditions of the specification, and the panic beside them.\<close>

datatype category = NotFound | Unauthorized | InvalidArgument | Panic

fun category_of :: "error \<Rightarrow> category" where
  "category_of TicketDoesNotExist = NotFound"
| "category_of NotAuthorizedManagerOnly = Unauthorized"
| "category_of NotAuthorized = Unauthorized"
| "category_of CanOnlyAssignToManagers = InvalidArgument"
| "category_of OnlyClosedOrResolved = InvalidArgument"
| "category_of CommentCannotBeEmpty = InvalidArgument"
| "category_of ArithmeticOverflow = Panic"
| "category_of ArrayOutOfBounds = Panic"

section \<open>Statements\<close>

text \<open>
  A function body runs statement by statement on the storage. A statement either goes on
  with a value and the storage it leaves, or reverts with an error; the storage paired
  with the error is the one the body had reached when it reverted, so that what a body
  wrote before a failing check stays visible at this level. \<open>transact\<close> below is the
  call as the ledger applies it, where a revert restores the storage. Gas is not
  modelled: no call runs out of gas.
\<close>

type_synonym 'a tx = "BlockDesk \<Rightarrow> (error + 'a) \<times> BlockDesk"

definition return_tx :: "'a \<Rightarrow> 'a tx" where
  "return_tx x = (\<lambda>s. (Inr x, s))"

definition bind_tx :: "'a tx \<Rightarrow> ('a \<Rightarrow> 'b tx) \<Rightarrow> 'b tx" where
  "bind_tx m f = (\<lambda>s. case m s of (Inl e, s') \<Rightarrow> (Inl e, s') | (Inr x, s') \<Rightarrow> f x s')"

definition then_tx :: "unit tx \<Rightarrow> 'a tx \<Rightarrow> 'a tx" where
  "then_tx m n = bind_tx m (\<lambda>_. n)"

fun block :: "unit tx list \<Rightarrow> unit tx" where
  "block [] = return_tx ()"
| "block (m # ms) = then_tx m (block ms)"

definition require :: "(BlockDesk \<Rightarrow> bool) \<Rightarrow> error \<Rightarrow> unit tx" where
  "require c e = (\<lambda>s. if c s then (Inr (), s) else (Inl e, s))"

definition store :: "(BlockDesk \<Rightarrow> BlockDesk) \<Rightarrow> unit tx" where
  "store f = (\<lambda>s. (Inr (), f s))"

definition read_tx :: "(BlockDesk \<Rightarrow> 'a) \<Rightarrow> 'a tx" where
  "read_tx f = (\<lambda>s. (Inr (f s), s))"

definition emit :: "event \<Rightarrow> unit tx" where
  "emit ev = store (\<lambda>s. s\<lparr>emitted := emitted s @ [ev]\<rparr>)"

text \<open>An assignment to fields of \<^verbatim>\<open>tickets[ticketId]\<close>.\<close>

definition ticket_store :: "uint256 \<Rightarrow> (Ticket \<Rightarrow> Ticket) \<Rightarrow> unit tx" where
  "ticket_store i f = store (\<lambda>s. s\<lparr>tickets := (tickets s)(i := f (tickets s i))\<rparr>)"

text \<open>
  \<^verbatim>\<open>x++\<close> on a \<^verbatim>\<open>uint256\<close> storage variable: the value is the old one; the increment is
  checked, and panics at \<open>2^256 - 1\<close>.
\<close>

definition post_increment ::
  "(BlockDesk \<Rightarrow> uint256) \<Rightarrow> (uint256 \<Rightarrow> BlockDesk \<Rightarrow> BlockDesk) \<Rightarrow> uint256 tx" where
  "post_increment rd wr =
     (\<lambda>s. if rd s = - 1 then (Inl ArithmeticOverflow, s) else (Inr (rd s), wr (rd s + 1) s))"

section \<open>The functions of the contract\<close>

text \<open>The zero value of the struct \<^verbatim>\<open>Ticket\<close>: what a mapping entry never written reads as.\<close>

definition zero_Ticket :: Ticket where
  "zero_Ticket =
     \<lparr>id_t = 0, creator = 0, assignedTo = 0, title = [], description = [],
      attachmentHash = [], status = Open, createdAt = 0, updatedAt = 0\<rparr>"

definition constructor :: "env \<Rightarrow> BlockDesk" where
  "constructor e =
     \<lparr>tickets = (\<lambda>_. zero_Ticket),
      userRoles = (\<lambda>_. User)(msg_sender e := Manager),
      ticketComments = (\<lambda>_. []),
      nextTicketId = 1,
      nextCommentId = 1,
      emitted = []\<rparr>"

definition onlyManager :: "env \<Rightarrow> 'a tx \<Rightarrow> 'a tx" where
  "onlyManager e body =
     then_tx (require (\<lambda>s. userRoles s (msg_sender e) = Manager) NotAuthorizedManagerOnly) body"

definition createTicket :: "env \<Rightarrow> string \<Rightarrow> string \<Rightarrow> string \<Rightarrow> uint256 tx" where
  "createTicket e ttl descr att =
     bind_tx (post_increment nextTicketId (\<lambda>v s. s\<lparr>nextTicketId := v\<rparr>)) (\<lambda>ticketId.
       then_tx
         (block
           [ticket_store ticketId (\<lambda>_.
              \<lparr>id_t = ticketId, creator = msg_sender e, assignedTo = 0, title = ttl,
               description = descr, attachmentHash = att, status = Open,
               createdAt = block_timestamp e, updatedAt = block_timestamp e\<rparr>),
            emit (TicketCreated ticketId (msg_sender e) ttl)])
         (return_tx ticketId))"

definition updateStatus :: "env \<Rightarrow> uint256 \<Rightarrow> TicketStatus \<Rightarrow> unit tx" where
  "updateStatus e i st =
     block
       [require (\<lambda>s. id_t (tickets s i) \<noteq> 0) TicketDoesNotExist,
        require (\<lambda>s. creator (tickets s i) = msg_sender e \<or>
                      assignedTo (tickets s i) = msg_sender e \<or>
                      userRoles s (msg_sender e) = Manager) NotAuthorized,
        ticket_store i (\<lambda>t. t\<lparr>status := st\<rparr>),
        ticket_store i (\<lambda>t. t\<lparr>updatedAt := block_timestamp e\<rparr>),
        emit (StatusUpdated i st (msg_sender e))]"

definition assignTicket :: "env \<Rightarrow> uint256 \<Rightarrow> address \<Rightarrow> unit tx" where
  "assignTicket e i assignee =
     onlyManager e (block
       [require (\<lambda>s. id_t (tickets s i) \<noteq> 0) TicketDoesNotExist,
        require (\<lambda>s. userRoles s assignee = Manager) CanOnlyAssignToManagers,
        ticket_store i (\<lambda>t. t\<lparr>assignedTo := assignee\<rparr>),
        ticket_store i (\<lambda>t. t\<lparr>status := InProgress\<rparr>),
        ticket_store i (\<lambda>t. t\<lparr>updatedAt := block_timestamp e\<rparr>),
        emit (TicketAssigned i assignee (msg_sender e))])"

definition resolveTicket :: "env \<Rightarrow> uint256 \<Rightarrow> unit tx" where
  "resolveTicket e i =
     onlyManager e (block
       [require (\<lambda>s. id_t (tickets s i) \<noteq> 0) TicketDoesNotExist,
        ticket_store i (\<lambda>t. t\<lparr>status := Resolved\<rparr>),
        ticket_store i (\<lambda>t. t\<lparr>updatedAt := block_timestamp e\<rparr>),
        emit (StatusUpdated i Resolved (msg_sender e))])"

definition closeTicket :: "env \<Rightarrow> uint256 \<Rightarrow> unit tx" where
  "closeTicket e i =
     onlyManager e (block
       [require (\<lambda>s. id_t (tickets s i) \<noteq> 0) TicketDoesNotExist,
        ticket_store i (\<lambda>t. t\<lparr>status := Closed\<rparr>),
        ticket_store i (\<lambda>t. t\<lparr>updatedAt := block_timestamp e\<rparr>),
        emit (StatusUpdated i Closed (msg_sender e))])"

definition reopenTicket :: "env \<Rightarrow> uint256 \<Rightarrow> unit tx" where
  "reopenTicket e i =
     onlyManager e (block
       [require (\<lambda>s. id_t (tickets s i) \<noteq> 0) TicketDoesNotExist,
        require (\<lambda>s. status (tickets s i) = Closed \<or> status (tickets s i) = Resolved)
          OnlyClosedOrResolved,
        ticket_store i (\<lambda>t. t\<lparr>status := Open\<rparr>),
        ticket_store i (\<lambda>t. t\<lparr>assignedTo := 0\<rparr>),
        ticket_store i (\<lambda>t. t\<lparr>updatedAt := block_timestamp e\<rparr>),
        emit (TicketReopened i (msg_sender e))])"

definition addComment :: "env \<Rightarrow> uint256 \<Rightarrow> string \<Rightarrow> unit tx" where
  "addComment e i content' =
     then_tx
       (block
         [require (\<lambda>s. id_t (tickets s i) \<noteq> 0) TicketDoesNotExist,
          require (\<lambda>_. length content' > 0) CommentCannotBeEmpty])
       (bind_tx (post_increment nextCommentId (\<lambda>v s. s\<lparr>nextCommentId := v\<rparr>)) (\<lambda>commentId.
          block
            [store (\<lambda>s. s\<lparr>ticketComments := (ticketComments s)(i := ticketComments s i @
               [\<lparr>id_c = commentId, ticketId = i, author = msg_sender e, content = content',
                 createdAt_c = block_timestamp e\<rparr>])\<rparr>),
             emit (CommentAdded i commentId (msg_sender e))]))"

definition setUserRole :: "env \<Rightarrow> address \<Rightarrow> UserRole \<Rightarrow> unit tx" where
  "setUserRole e user role =
     onlyManager e (store (\<lambda>s. s\<lparr>userRoles := (userRoles s)(user := role)\<rparr>))"

text \<open>
  The three view functions. They read the storage and write nothing. The loop of
  \<^verbatim>\<open>getAllTickets\<close> fills a memory array of \<open>count\<close> zero tickets from index \<open>i - 1\<close> for
  \<open>i\<close> from 1 to \<open>count\<close>; the subtractions and the increment are checked.
\<close>

definition getTicketComments :: "uint256 \<Rightarrow> Comment list tx" where
  "getTicketComments i =
     then_tx (require (\<lambda>s. id_t (tickets s i) \<noteq> 0) TicketDoesNotExist)
       (read_tx (\<lambda>s. ticketComments s i))"

definition getTicket :: "uint256 \<Rightarrow> Ticket tx" where
  "getTicket i =
     then_tx (require (\<lambda>s. id_t (tickets s i) \<noteq> 0) TicketDoesNotExist)
       (read_tx (\<lambda>s. tickets s i))"

function getAllTickets_loop ::
  "(uint256 \<Rightarrow> Ticket) \<Rightarrow> uint256 \<Rightarrow> uint256 \<Rightarrow> Ticket list \<Rightarrow> error + Ticket list" where
  "getAllTickets_loop tk count i allTickets =
     (if i \<le> count then
        (if i = 0 then Inl ArithmeticOverflow
         else if \<not> unat (i - 1) < length allTickets then Inl ArrayOutOfBounds
         else if i = - 1 then Inl ArithmeticOverflow
         else getAllTickets_loop tk count (i + 1) (allTickets[unat (i - 1) := tk i]))
      else Inr allTickets)"
  by pat_completeness auto
termination
proof (relation "measure (\<lambda>(tk, count, i, allTickets). Suc (unat count) - unat i)")
  show "wf (measure (\<lambda>(tk, count, i, allTickets). Suc (unat count) - unat i))"
    by simp
next
  fix tk :: "uint256 \<Rightarrow> Ticket" and count i :: uint256 and allTickets :: "Ticket list"
  assume "i \<le> count" and "i \<noteq> - 1"
  then have "unat i \<le> unat count" and "unat (i + 1) = Suc (unat i)"
    by (simp_all add: word_le_nat_alt add.commute add_eq_0_iff unatSuc)
  then show "((tk, count, i + 1, allTickets[unat (i - 1) := tk i]), (tk, count, i, allTickets))
      \<in> measure (\<lambda>(tk, count, i, allTickets). Suc (unat count) - unat i)"
    by simp
qed

declare getAllTickets_loop.simps [simp del]

definition getAllTickets :: "Ticket list tx" where
  "getAllTickets =
     (\<lambda>s. if nextTicketId s = 0 then (Inl ArithmeticOverflow, s)
          else (case getAllTickets_loop (tickets s) (nextTicketId s - 1) 1
                       (replicate (unat (nextTicketId s - 1)) zero_Ticket) of
                  Inl err \<Rightarrow> (Inl err, s)
                | Inr allTickets \<Rightarrow> (Inr allTickets, s)))"

lemmas stmt_defs =
  return_tx_def bind_tx_def then_tx_def require_def store_def read_tx_def emit_def
  ticket_store_def post_increment_def onlyManager_def

lemmas fun_defs =
  createTicket_def updateStatus_def assignTicket_def resolveTicket_def closeTicket_def
  reopenTicket_def addComment_def setUserRole_def getTicketComments_def getTicket_def
  getAllTickets_def

section \<open>Calls and runs\<close>

text \<open>
  The external functions of the contract, as calls with their arguments, and what a
  call returns. (The getters that Solidity generates for the public state variables are
  plain reads of the storage and are not listed.)
\<close>

datatype operation =
    CreateTicket string string string
  | UpdateStatus uint256 TicketStatus
  | AssignTicket uint256 address
  | ResolveTicket uint256
  | CloseTicket uint256
  | ReopenTicket uint256
  | AddComment uint256 string
  | SetUserRole address UserRole
  | GetTicketComments uint256
  | GetTicket uint256
  | GetAllTickets

datatype retval =
    NoOutput
  | NewTicketId uint256
  | CommentsOf "Comment list"
  | TicketOf Ticket
  | AllTickets "Ticket list"

definition no_output :: "unit tx \<Rightarrow> retval tx" where
  "no_output m = bind_tx m (\<lambda>_. return_tx NoOutput)"

fun dispatch :: "env \<Rightarrow> operation \<Rightarrow> retval tx" where
  "dispatch e (CreateTicket ttl descr att) =
     bind_tx (createTicket e ttl descr att) (\<lambda>i. return_tx (NewTicketId i))"
| "dispatch e (UpdateStatus i st) = no_output (updateStatus e i st)"
| "dispatch e (AssignTicket i assignee) = no_output (assignTicket e i assignee)"
| "dispatch e (ResolveTicket i) = no_output (resolveTicket e i)"
| "dispatch e (CloseTicket i) = no_output (closeTicket e i)"
| "dispatch e (ReopenTicket i) = no_output (reopenTicket e i)"
| "dispatch e (AddComment i content') = no_output (addComment e i content')"
| "dispatch e (SetUserRole user role) = no_output (setUserRole e user role)"
| "dispatch e (GetTicketComments i) = bind_tx (getTicketComments i) (\<lambda>cs. return_tx (CommentsOf cs))"
| "dispatch e (GetTicket i) = bind_tx (getTicket i) (\<lambda>t. return_tx (TicketOf t))"
| "dispatch e GetAllTickets = bind_tx getAllTickets (\<lambda>ts. return_tx (AllTickets ts))"

text \<open>
  A call as the ledger applies it: a call that reverts leaves the storage (and the log)
  as it was before the call.
\<close>

definition transact :: "env \<Rightarrow> operation \<Rightarrow> BlockDesk \<Rightarrow> (error + retval) \<times> BlockDesk" where
  "transact e op s =
     (case dispatch e op s of
        (Inl err, _) \<Rightarrow> (Inl err, s)
      | (Inr out, s') \<Rightarrow> (Inr out, s'))"

text \<open>The storage after a sequence of calls, and the result of each call of the sequence.\<close>

fun run :: "BlockDesk \<Rightarrow> (env \<times> operation) list \<Rightarrow> BlockDesk" where
  "run s [] = s"
| "run s ((e, op) # cs) = run (snd (transact e op s)) cs"

fun results :: "BlockDesk \<Rightarrow> (env \<times> operation) list \<Rightarrow> (error + retval) list" where
  "results s [] = []"
| "results s ((e, op) # cs) = fst (transact e op s) # results (snd (transact e op s)) cs"

text \<open>
  Callers and storages used as concrete inputs below. Address 1 deploys the contract and
  so holds Manager; addresses 5 and 7 hold User unless a call of the run changes it.
\<close>

definition deployer :: env where
  "deployer = \<lparr>msg_sender = 1, block_timestamp = 1000\<rparr>"

definition manager_env :: env where
  "manager_env = \<lparr>msg_sender = 1, block_timestamp = 2000\<rparr>"

definition alice_env :: env where
  "alice_env = \<lparr>msg_sender = 5, block_timestamp = 1500\<rparr>"

definition bob_env :: env where
  "bob_env = \<lparr>msg_sender = 7, block_timestamp = 2500\<rparr>"

definition one_ticket :: BlockDesk where
  "one_ticket = run (constructor deployer) [(alice_env, CreateTicket ''Printer jam'' ''Qm1'' [])]"

definition closed_ticket :: BlockDesk where
  "closed_ticket = run one_ticket [(manager_env, CloseTicket 1)]"

definition assigned_ticket :: BlockDesk where
  "assigned_ticket =
     run one_ticket [(manager_env, SetUserRole 7 Manager), (manager_env, AssignTicket 1 7)]"

definition handover :: "(env \<times> operation) list" where
  "handover = [(manager_env, SetUserRole 7 Manager), (manager_env, SetUserRole 1 User),
               (alice_env, CreateTicket ''Printer jam'' ''Qm1'' [])]"

definition three_tickets :: "(env \<times> operation) list" where
  "three_tickets =
     [(alice_env, CreateTicket ''Printer jam'' ''Qm1'' []),
      (alice_env, CloseTicket 1),
      (bob_env, CreateTicket ''No network'' ''Qm2'' ''Qm3''),
      (manager_env, CreateTicket ''New laptop'' ''Qm4'' [])]"

definition commented_ticket :: BlockDesk where
  "commented_ticket =
     run (constructor deployer)
       [(alice_env, CreateTicket ''Printer jam'' ''Qm1'' []),
        (alice_env, AddComment 1 ''still broken'')]"

lemmas demo_defs =
  deployer_def manager_env_def alice_env_def bob_env_def one_ticket_def closed_ticket_def
  assigned_ticket_def constructor_def zero_Ticket_def transact_def no_output_def

section \<open>Predicates of the properties\<close>

text \<open>The storage with the status of ticket \<open>i\<close> replaced, everything else as it is.\<close>

definition with_status :: "BlockDesk \<Rightarrow> uint256 \<Rightarrow> TicketStatus \<Rightarrow> BlockDesk" where
  "with_status s i st = s\<lparr>tickets := (tickets s)(i := (tickets s i)\<lparr>status := st\<rparr>)\<rparr>"

text \<open>Some identity holds the Manager role; \<open>a\<close> is the only identity that holds it.\<close>

definition has_manager :: "BlockDesk \<Rightarrow> bool" where
  "has_manager s = (\<exists>a. userRoles s a = Manager)"

definition sole_manager :: "BlockDesk \<Rightarrow> address \<Rightarrow> bool" where
  "sole_manager s a = (userRoles s a = Manager \<and> (\<forall>b. userRoles s b = Manager \<longrightarrow> b = a))"

text \<open>
  The call is a \<open>setUserRole\<close> by a Manager that gives the role User to the only Manager
  (who is then the caller); and: no call of a run is such a call.
\<close>

fun removes_last_manager :: "env \<Rightarrow> operation \<Rightarrow> BlockDesk \<Rightarrow> bool" where
  "removes_last_manager e (SetUserRole user role) s =
     (role = User \<and> userRoles s (msg_sender e) = Manager \<and> sole_manager s user)"
| "removes_last_manager e _ s = False"

fun keeps_a_manager :: "BlockDesk \<Rightarrow> (env \<times> operation) list \<Rightarrow> bool" where
  "keeps_a_manager s [] = True"
| "keeps_a_manager s ((e, op) # cs) =
     (\<not> removes_last_manager e op s \<and> keeps_a_manager (snd (transact e op s)) cs)"

text \<open>The ticket ids that the successful \<open>createTicket\<close> calls of a run returned, in order.\<close>

fun new_ids :: "(error + retval) list \<Rightarrow> uint256 list" where
  "new_ids [] = []"
| "new_ids (Inr (NewTicketId i) # rs) = i # new_ids rs"
| "new_ids (_ # rs) = new_ids rs"

text \<open>Every stored comment has an id below the comment counter; no stored comment has id \<open>n\<close>.\<close>

definition comment_ids_below :: "BlockDesk \<Rightarrow> bool" where
  "comment_ids_below s = (\<forall>i. \<forall>c \<in> set (ticketComments s i). id_c c < nextCommentId s)"

definition unused_comment_id :: "BlockDesk \<Rightarrow> uint256 \<Rightarrow> bool" where
  "unused_comment_id s n = (\<forall>i. \<forall>c \<in> set (ticketComments s i). id_c c \<noteq> n)"

section \<open>Basic facts\<close>

text \<open>A checked increment that does not panic adds one, as a number.\<close>

lemma unat_inc: "x \<noteq> - 1 \<Longrightarrow> unat (x + 1) = Suc (unat (x :: 'a :: len word))"
  by (simp add: add.commute add_eq_0_iff unatSuc)

lemma word_less_inc: "x \<noteq> - 1 \<Longrightarrow> x < (x + 1 :: 'a :: len word)"
  by (simp add: word_less_nat_alt unat_inc)

text \<open>The two functions that move a counter, as one case distinction each.\<close>

lemma createTicket_result:
  "createTicket e ttl descr att s =
     (if nextTicketId s = - 1 then (Inl ArithmeticOverflow, s)
      else (Inr (nextTicketId s),
            s\<lparr>nextTicketId := nextTicketId s + 1,
              tickets := (tickets s)(nextTicketId s :=
                \<lparr>id_t = nextTicketId s, creator = msg_sender e, assignedTo = 0, title = ttl,
                 description = descr, attachmentHash = att, status = Open,
                 createdAt = block_timestamp e, updatedAt = block_timestamp e\<rparr>),
              emitted := emitted s @ [TicketCreated (nextTicketId s) (msg_sender e) ttl]\<rparr>))"
  by (simp add: createTicket_def stmt_defs)

lemma addComment_result:
  "addComment e i c s =
     (if id_t (tickets s i) = 0 then (Inl TicketDoesNotExist, s)
      else if c = [] then (Inl CommentCannotBeEmpty, s)
      else if nextCommentId s = - 1 then (Inl ArithmeticOverflow, s)
      else (Inr (),
            s\<lparr>nextCommentId := nextCommentId s + 1,
              ticketComments := (ticketComments s)(i := ticketComments s i @
                [\<lparr>id_c = nextCommentId s, ticketId = i, author = msg_sender e, content = c,
                  createdAt_c = block_timestamp e\<rparr>]),
              emitted := emitted s @ [CommentAdded i (nextCommentId s) (msg_sender e)]\<rparr>))"
  by (simp add: addComment_def stmt_defs)

text \<open>The view functions leave the storage as it is.\<close>

lemma view_state:
  "snd (getTicketComments i s) = s" "snd (getTicket i s) = s" "snd (getAllTickets s) = s"
  by (simp_all add: getTicketComments_def getTicket_def getAllTickets_def stmt_defs
        split: sum.splits)

lemma transact_view:
  "snd (transact e (GetTicketComments i) s) = s" "snd (transact e (GetTicket i) s) = s"
  "snd (transact e GetAllTickets s) = s"
  by (simp_all add: transact_def getTicketComments_def getTicket_def getAllTickets_def
        stmt_defs split: sum.splits)

lemma transact_view_result:
  "new_ids (fst (transact e (GetTicketComments i) s) # rs) = new_ids rs"
  "new_ids (fst (transact e (GetTicket i) s) # rs) = new_ids rs"
  "new_ids (fst (transact e GetAllTickets s) # rs) = new_ids rs"
  by (simp_all add: transact_def getTicketComments_def getTicket_def getAllTickets_def
        stmt_defs split: sum.splits)

text \<open>The concrete storages.\<close>

lemma one_ticket_exists: "id_t (tickets one_ticket 1) \<noteq> 0"
  by (simp add: demo_defs createTicket_def stmt_defs)

lemma one_ticket_fields:
  "creator (tickets one_ticket 1) = 5" "assignedTo (tickets one_ticket 1) = 0"
  "status (tickets one_ticket 1) = Open"
  by (simp_all add: demo_defs createTicket_def stmt_defs)

lemma one_ticket_roles: "userRoles one_ticket = (\<lambda>_. User)(1 := Manager)"
  by (simp add: demo_defs createTicket_def stmt_defs)

lemma closed_ticket_exists: "id_t (tickets closed_ticket 1) \<noteq> 0"
  by (simp add: demo_defs createTicket_def closeTicket_def stmt_defs)

lemma closed_ticket_roles: "userRoles closed_ticket = (\<lambda>_. User)(1 := Manager)"
  by (simp add: demo_defs createTicket_def closeTicket_def stmt_defs)

lemma closed_ticket_status: "status (tickets closed_ticket 1) = Closed"
  by (simp add: demo_defs createTicket_def closeTicket_def stmt_defs)

lemma assigned_ticket_facts:
  "id_t (tickets assigned_ticket 1) \<noteq> 0" "assignedTo (tickets assigned_ticket 1) = 7"
  "creator (tickets assigned_ticket 1) = 5" "userRoles assigned_ticket 1 = Manager"
  "userRoles assigned_ticket 7 = Manager"
  by (simp_all add: demo_defs createTicket_def setUserRole_def assignTicket_def stmt_defs)

lemma commented_ticket_facts:
  "id_t (tickets commented_ticket 1) \<noteq> 0"
  "nextCommentId commented_ticket = 2"
  "ticketComments commented_ticket 1 =
     [\<lparr>id_c = 1, ticketId = 1, author = 5, content = ''still broken'', createdAt_c = 1500\<rparr>]"
  by (simp_all add: commented_ticket_def demo_defs createTicket_result addComment_result stmt_defs)

lemma getAllTickets_one_ticket:
  "getAllTickets one_ticket = (Inr [tickets one_ticket 1], one_ticket)"
  by (simp add: getAllTickets_def getAllTickets_loop.simps word_le_nat_alt demo_defs
        createTicket_result stmt_defs)

section \<open>Reopening\<close>

text \<open>
  C1. For a ticket that exists and a caller who holds Manager, \<open>reopenTicket\<close> succeeds
  exactly when the status of the ticket is Closed or Resolved; from any other status it
  reverts with an error of the category InvalidArgument; and when it succeeds the ticket
  has status Open and its assignee is absent (the zero address).
\<close>

theorem reopenTicket_spec:
  assumes "id_t (tickets s i) \<noteq> 0" and "userRoles s (msg_sender e) = Manager"
  shows "((\<exists>s'. reopenTicket e i s = (Inr (), s')) \<longleftrightarrow>
            status (tickets s i) = Closed \<or> status (tickets s i) = Resolved)
       \<and> (status (tickets s i) \<noteq> Closed \<and> status (tickets s i) \<noteq> Resolved \<longrightarrow>
            (\<exists>err s'. reopenTicket e i s = (Inl err, s') \<and> category_of err = InvalidArgument))
       \<and> (\<forall>s'. reopenTicket e i s = (Inr (), s') \<longrightarrow>
            status (tickets s' i) = Open \<and> assignedTo (tickets s' i) = 0)"
  using assms by (auto simp add: reopenTicket_def stmt_defs)

theorem reopenTicket_spec_witness:
  "id_t (tickets closed_ticket 1) \<noteq> 0
   \<and> userRoles closed_ticket (msg_sender manager_env) = Manager
   \<and> status (tickets closed_ticket 1) = Closed
   \<and> (\<exists>s'. reopenTicket manager_env 1 closed_ticket = (Inr (), s'))
   \<and> status (tickets (snd (reopenTicket manager_env 1 closed_ticket)) 1) = Open
   \<and> assignedTo (tickets (snd (reopenTicket manager_env 1 closed_ticket)) 1) = 0
   \<and> status (tickets one_ticket 1) = Open
   \<and> (\<exists>err s'. reopenTicket manager_env 1 one_ticket = (Inl err, s')
        \<and> category_of err = InvalidArgument)"
proof -
  have c1: "id_t (tickets closed_ticket 1) \<noteq> 0"
    by (simp add: demo_defs createTicket_def closeTicket_def stmt_defs)
  have c2: "userRoles closed_ticket (msg_sender manager_env) = Manager"
    by (simp add: demo_defs createTicket_def closeTicket_def stmt_defs)
  have c3: "status (tickets closed_ticket 1) = Closed"
    by (simp add: demo_defs createTicket_def closeTicket_def stmt_defs)
  have o1: "id_t (tickets one_ticket 1) \<noteq> 0"
    by (simp add: demo_defs createTicket_def stmt_defs)
  have o2: "userRoles one_ticket (msg_sender manager_env) = Manager"
    by (simp add: demo_defs createTicket_def stmt_defs)
  have o3: "status (tickets one_ticket 1) = Open"
    by (simp add: demo_defs createTicket_def stmt_defs)
  note closed = reopenTicket_spec [OF c1 c2]
  note opened = reopenTicket_spec [OF o1 o2]
  from closed c3 obtain s' where ok: "reopenTicket manager_env 1 closed_ticket = (Inr (), s')"
    by blast
  with closed have "status (tickets s' 1) = Open \<and> assignedTo (tickets s' 1) = 0"
    by blast
  moreover from opened o3
  have "\<exists>err s'. reopenTicket manager_env 1 one_ticket = (Inl err, s')
          \<and> category_of err = InvalidArgument"
    by simp
  ultimately show ?thesis
    using c1 c2 c3 o3 ok by simp
qed

section \<open>Transitions that do not read the status\<close>

text \<open>
  C2, as the source has it. For a ticket that exists and a caller who holds Manager,
  \<open>resolveTicket\<close> and \<open>closeTicket\<close> succeed and \<open>assignTicket\<close> succeeds whenever the
  assignee holds Manager, whatever the status of the ticket is; the result of the three
  calls (success, or which error) is the same when the status of the ticket is replaced
  by any other. A ticket assigned this way, a Closed one too, has status InProgress.
\<close>

theorem permissive_transitions:
  assumes "id_t (tickets s i) \<noteq> 0" and "userRoles s (msg_sender e) = Manager"
  shows "(\<exists>s'. resolveTicket e i s = (Inr (), s') \<and> status (tickets s' i) = Resolved)
       \<and> (\<exists>s'. closeTicket e i s = (Inr (), s') \<and> status (tickets s' i) = Closed)
       \<and> (userRoles s who = Manager \<longrightarrow>
            (\<exists>s'. assignTicket e i who s = (Inr (), s') \<and> status (tickets s' i) = InProgress
                  \<and> assignedTo (tickets s' i) = who))
       \<and> (\<forall>st. fst (assignTicket e i who (with_status s i st)) = fst (assignTicket e i who s)
              \<and> fst (resolveTicket e i (with_status s i st)) = fst (resolveTicket e i s)
              \<and> fst (closeTicket e i (with_status s i st)) = fst (closeTicket e i s))"
  using assms
  by (auto simp add: assignTicket_def resolveTicket_def closeTicket_def with_status_def stmt_defs)

theorem permissive_transitions_witness:
  "id_t (tickets closed_ticket 1) \<noteq> 0
   \<and> userRoles closed_ticket (msg_sender manager_env) = Manager
   \<and> status (tickets closed_ticket 1) = Closed
   \<and> userRoles closed_ticket 1 = Manager
   \<and> (\<exists>s'. resolveTicket manager_env 1 closed_ticket = (Inr (), s') \<and> status (tickets s' 1) = Resolved)
   \<and> (\<exists>s'. closeTicket manager_env 1 closed_ticket = (Inr (), s') \<and> status (tickets s' 1) = Closed)
   \<and> (\<exists>s'. assignTicket manager_env 1 1 closed_ticket = (Inr (), s')
         \<and> status (tickets s' 1) = InProgress \<and> assignedTo (tickets s' 1) = 1)
   \<and> fst (assignTicket manager_env 1 1 (with_status closed_ticket 1 Open))
       = fst (assignTicket manager_env 1 1 closed_ticket)"
proof -
  have m: "userRoles closed_ticket (msg_sender manager_env) = Manager"
    by (simp add: closed_ticket_roles manager_env_def)
  have r: "userRoles closed_ticket 1 = Manager"
    by (simp add: closed_ticket_roles)
  note t = permissive_transitions [OF closed_ticket_exists m, of 1]
  from t r have "\<exists>s'. assignTicket manager_env 1 1 closed_ticket = (Inr (), s')
         \<and> status (tickets s' 1) = InProgress \<and> assignedTo (tickets s' 1) = 1"
    by blast
  moreover from t
  have "fst (assignTicket manager_env 1 1 (with_status closed_ticket 1 Open))
       = fst (assignTicket manager_env 1 1 closed_ticket)"
    by blast
  moreover from t
  have "\<exists>s'. resolveTicket manager_env 1 closed_ticket = (Inr (), s') \<and> status (tickets s' 1) = Resolved"
    by blast
  moreover from t
  have "\<exists>s'. closeTicket manager_env 1 closed_ticket = (Inr (), s') \<and> status (tickets s' 1) = Closed"
    by blast
  ultimately show ?thesis using closed_ticket_exists m r closed_ticket_status by blast
qed

text \<open>
  C2 as it is written lets every \<open>assignTicket\<close> of a Manager succeed. Ticket 1 exists
  and is Closed, the caller holds Manager, and the assignee (address 7) holds User: the
  call reverts with "Can only assign to Managers".
\<close>

theorem assign_to_user_counterexample:
  "id_t (tickets closed_ticket 1) \<noteq> 0
   \<and> userRoles closed_ticket (msg_sender manager_env) = Manager
   \<and> assignTicket manager_env 1 7 closed_ticket = (Inl CanOnlyAssignToManagers, closed_ticket)"
  by (simp add: closed_ticket_exists closed_ticket_roles assignTicket_def stmt_defs manager_env_def)

section \<open>Managers\<close>

text \<open>Only \<open>setUserRole\<close> writes the role table.\<close>

lemma transact_userRoles:
  "userRoles (snd (transact e op s)) =
     (case op of
        SetUserRole a r \<Rightarrow>
          if userRoles s (msg_sender e) = Manager then (userRoles s)(a := r) else userRoles s
      | _ \<Rightarrow> userRoles s)"
  by (cases op)
     (simp_all add: transact_view,
      simp_all add: transact_def no_output_def createTicket_def updateStatus_def
        assignTicket_def resolveTicket_def closeTicket_def reopenTicket_def addComment_def
        setUserRole_def stmt_defs)

lemma has_manager_transact:
  assumes "has_manager s" and "\<not> removes_last_manager e op s"
  shows "has_manager (snd (transact e op s))"
proof (cases op)
  case (SetUserRole a r)
  show ?thesis
  proof (cases "userRoles s (msg_sender e) = Manager \<and> r = User")
    case True
    with assms(2) SetUserRole have "\<not> sole_manager s a" by simp
    with True obtain b where "userRoles s b = Manager" "b \<noteq> a"
      by (auto simp add: sole_manager_def)
    with True SetUserRole show ?thesis
      by (auto simp add: has_manager_def transact_userRoles)
  next
    case False
    with assms(1) SetUserRole show ?thesis
      by (cases r) (auto simp add: has_manager_def transact_userRoles)
  qed
qed (use assms(1) in \<open>simp_all add: has_manager_def transact_userRoles\<close>)

lemma has_manager_run:
  "has_manager s \<Longrightarrow> keeps_a_manager s cs \<Longrightarrow> has_manager (run s cs)"
proof (induction cs arbitrary: s)
  case Nil
  then show ?case by simp
next
  case (Cons c cs)
  obtain e op where c: "c = (e, op)" by (cases c)
  from Cons.prems c have "has_manager (snd (transact e op s))"
    by (simp add: has_manager_transact)
  with Cons.IH [of "snd (transact e op s)"] Cons.prems(2) c show ?case by simp
qed

text \<open>
  C3, as the source has it. The constructor gives the deployer the role Manager, and
  some identity holds Manager after every run from there in which no call is a
  \<open>setUserRole\<close> by which the only Manager gives themself the role User. The source has
  no check against that call.
\<close>

theorem manager_kept:
  "userRoles (constructor d) (msg_sender d) = Manager
   \<and> (keeps_a_manager (constructor d) cs \<longrightarrow> has_manager (run (constructor d) cs))"
proof -
  have "userRoles (constructor d) (msg_sender d) = Manager"
    by (simp add: constructor_def)
  then have "has_manager (constructor d)"
    by (auto simp add: has_manager_def)
  then show ?thesis
    using \<open>userRoles (constructor d) (msg_sender d) = Manager\<close> by (simp add: has_manager_run)
qed

theorem manager_kept_witness:
  "keeps_a_manager (constructor deployer) handover
   \<and> has_manager (run (constructor deployer) handover)
   \<and> userRoles (run (constructor deployer) handover) 1 = User
   \<and> userRoles (run (constructor deployer) handover) 7 = Manager"
proof -
  have r1: "snd (transact manager_env (SetUserRole 7 Manager) (constructor deployer))
        = (constructor deployer)\<lparr>userRoles := (\<lambda>_. User)(1 := Manager, 7 := Manager)\<rparr>"
    by (simp add: demo_defs setUserRole_def stmt_defs)
  have "\<exists>b. b \<noteq> (1 :: address) \<and> (b \<noteq> 1 \<longrightarrow> b = 7)"
    by (rule exI [of _ 7]) simp
  then have ns: "\<not> sole_manager
      (snd (transact manager_env (SetUserRole 7 Manager) (constructor deployer))) 1"
    by (simp add: r1 sole_manager_def)
  have k: "keeps_a_manager (constructor deployer) handover"
    by (simp add: handover_def ns)
  have u: "userRoles (run (constructor deployer) handover) 1 = User
        \<and> userRoles (run (constructor deployer) handover) 7 = Manager"
    by (simp add: handover_def demo_defs setUserRole_def createTicket_def stmt_defs)
  from manager_kept [of deployer handover] k
  have "has_manager (run (constructor deployer) handover)" by blast
  with k u show ?thesis by simp
qed

text \<open>
  C3 as it is written is about every run. The deployer (address 1), the only Manager,
  calls \<open>setUserRole(1, User)\<close>: the call succeeds and no identity holds Manager.
\<close>

theorem last_manager_removed_counterexample:
  "fst (transact manager_env (SetUserRole 1 User) (constructor deployer)) = Inr NoOutput
   \<and> \<not> has_manager (run (constructor deployer) [(manager_env, SetUserRole 1 User)])"
  by (simp add: has_manager_def demo_defs setUserRole_def stmt_defs)

section \<open>Updating the status\<close>

text \<open>
  C4. For a ticket that exists and every target status, \<open>updateStatus\<close> reverts with an
  error of the category Unauthorized exactly when the caller is neither the creator of
  the ticket, nor its current assignee, nor a Manager; when the caller is one of the
  three, the call succeeds and the status of the ticket is the target status.
\<close>

theorem updateStatus_spec:
  assumes "id_t (tickets s i) \<noteq> 0"
  shows "((\<exists>err s'. updateStatus e i st s = (Inl err, s') \<and> category_of err = Unauthorized) \<longleftrightarrow>
            creator (tickets s i) \<noteq> msg_sender e \<and> assignedTo (tickets s i) \<noteq> msg_sender e
            \<and> userRoles s (msg_sender e) \<noteq> Manager)
       \<and> (creator (tickets s i) = msg_sender e \<or> assignedTo (tickets s i) = msg_sender e
            \<or> userRoles s (msg_sender e) = Manager \<longrightarrow>
            (\<exists>s'. updateStatus e i st s = (Inr (), s') \<and> status (tickets s' i) = st))"
  using assms by (auto simp add: updateStatus_def stmt_defs)

theorem updateStatus_spec_witness:
  "id_t (tickets one_ticket 1) \<noteq> 0
   \<and> creator (tickets one_ticket 1) = msg_sender alice_env
   \<and> (\<exists>s'. updateStatus alice_env 1 Closed one_ticket = (Inr (), s') \<and> status (tickets s' 1) = Closed)
   \<and> creator (tickets one_ticket 1) \<noteq> msg_sender bob_env
   \<and> assignedTo (tickets one_ticket 1) \<noteq> msg_sender bob_env
   \<and> userRoles one_ticket (msg_sender bob_env) \<noteq> Manager
   \<and> (\<exists>err s'. updateStatus bob_env 1 Closed one_ticket = (Inl err, s')
         \<and> category_of err = Unauthorized)"
proof -
  have a: "creator (tickets one_ticket 1) = msg_sender alice_env"
    by (simp add: one_ticket_fields alice_env_def)
  have b: "creator (tickets one_ticket 1) \<noteq> msg_sender bob_env
           \<and> assignedTo (tickets one_ticket 1) \<noteq> msg_sender bob_env
           \<and> userRoles one_ticket (msg_sender bob_env) \<noteq> Manager"
    by (simp add: one_ticket_fields one_ticket_roles bob_env_def)
  from updateStatus_spec [OF one_ticket_exists, of alice_env Closed] a
  have "\<exists>s'. updateStatus alice_env 1 Closed one_ticket = (Inr (), s') \<and> status (tickets s' 1) = Closed"
    by blast
  moreover from updateStatus_spec [OF one_ticket_exists, of bob_env Closed] b
  have "\<exists>err s'. updateStatus bob_env 1 Closed one_ticket = (Inl err, s')
         \<and> category_of err = Unauthorized"
    by blast
  ultimately show ?thesis using one_ticket_exists a b by blast
qed

section \<open>Assigning\<close>

text \<open>
  C5, as the source has it. \<open>assignTicket\<close> runs the modifier \<open>onlyManager\<close> first. For a
  ticket that exists and a caller who holds Manager: when the assignee does not hold
  Manager the call reverts with an error of the category InvalidArgument, the storage as
  it was; when the assignee holds Manager the call succeeds, the assignee of the ticket
  is the given one and its status is InProgress.
\<close>

theorem assignTicket_by_manager:
  assumes "id_t (tickets s i) \<noteq> 0" and "userRoles s (msg_sender e) = Manager"
  shows "(userRoles s who \<noteq> Manager \<longrightarrow>
            (\<exists>err. assignTicket e i who s = (Inl err, s) \<and> category_of err = InvalidArgument))
       \<and> (userRoles s who = Manager \<longrightarrow>
            (\<exists>s'. assignTicket e i who s = (Inr (), s') \<and> assignedTo (tickets s' i) = who
                  \<and> status (tickets s' i) = InProgress))"
  using assms by (auto simp add: assignTicket_def stmt_defs)

theorem assignTicket_by_manager_witness:
  "id_t (tickets one_ticket 1) \<noteq> 0
   \<and> userRoles one_ticket (msg_sender manager_env) = Manager
   \<and> userRoles one_ticket 7 \<noteq> Manager
   \<and> (\<exists>err. assignTicket manager_env 1 7 one_ticket = (Inl err, one_ticket)
         \<and> category_of err = InvalidArgument)
   \<and> userRoles one_ticket 1 = Manager
   \<and> (\<exists>s'. assignTicket manager_env 1 1 one_ticket = (Inr (), s')
         \<and> assignedTo (tickets s' 1) = 1 \<and> status (tickets s' 1) = InProgress)"
proof -
  have m: "userRoles one_ticket (msg_sender manager_env) = Manager"
    by (simp add: one_ticket_roles manager_env_def)
  have r: "userRoles one_ticket 7 \<noteq> Manager" "userRoles one_ticket 1 = Manager"
    by (simp_all add: one_ticket_roles)
  from assignTicket_by_manager [OF one_ticket_exists m, of 7] r(1)
  have "\<exists>err. assignTicket manager_env 1 7 one_ticket = (Inl err, one_ticket)
         \<and> category_of err = InvalidArgument"
    by blast
  moreover from assignTicket_by_manager [OF one_ticket_exists m, of 1] r(2)
  have "\<exists>s'. assignTicket manager_env 1 1 one_ticket = (Inr (), s')
         \<and> assignedTo (tickets s' 1) = 1 \<and> status (tickets s' 1) = InProgress"
    by blast
  ultimately show ?thesis using one_ticket_exists m r by blast
qed

text \<open>
  C5 as it is written names no caller. Ticket 1 exists and the caller (address 5) holds
  User: assigning to address 1, a Manager, does not succeed, and assigning to address 7,
  not a Manager, reverts with "Not authorized: Manager only", of the category
  Unauthorized and not InvalidArgument.
\<close>

theorem assignTicket_by_user_counterexample:
  "id_t (tickets one_ticket 1) \<noteq> 0
   \<and> userRoles one_ticket 1 = Manager
   \<and> assignTicket alice_env 1 1 one_ticket = (Inl NotAuthorizedManagerOnly, one_ticket)
   \<and> userRoles one_ticket 7 \<noteq> Manager
   \<and> assignTicket alice_env 1 7 one_ticket = (Inl NotAuthorizedManagerOnly, one_ticket)
   \<and> category_of NotAuthorizedManagerOnly \<noteq> InvalidArgument"
  by (simp add: one_ticket_exists one_ticket_roles assignTicket_def stmt_defs alice_env_def)

section \<open>Adding comments\<close>

lemma transact_comments:
  "(\<forall>i c. op \<noteq> AddComment i c) \<Longrightarrow>
     ticketComments (snd (transact e op s)) = ticketComments s
     \<and> nextCommentId (snd (transact e op s)) = nextCommentId s"
  by (cases op)
     (simp_all add: transact_view,
      simp_all add: transact_def no_output_def createTicket_result updateStatus_def
        assignTicket_def resolveTicket_def closeTicket_def reopenTicket_def
        setUserRole_def stmt_defs)

lemma transact_addComment:
  "snd (transact e (AddComment i c) s) = (if fst (addComment e i c s) = Inr () then snd (addComment e i c s) else s)"
  by (simp add: transact_def no_output_def addComment_result stmt_defs)

lemma comment_ids_below_transact:
  assumes "comment_ids_below s"
  shows "comment_ids_below (snd (transact e op s))"
proof (cases "\<exists>i c. op = AddComment i c")
  case False
  with assms transact_comments [of op e s] show ?thesis
    by (simp add: comment_ids_below_def)
next
  case True
  then obtain i c where op: "op = AddComment i c" by blast
  show ?thesis
  proof (cases "fst (addComment e i c s) = Inr ()")
    case False
    with assms op show ?thesis by (simp add: transact_addComment)
  next
    case True
    then have n: "nextCommentId s \<noteq> - 1"
      by (auto simp add: addComment_result split: if_splits)
    then have lt: "nextCommentId s < nextCommentId s + 1"
      by (rule word_less_inc)
    from True have s': "snd (transact e op s) =
        s\<lparr>nextCommentId := nextCommentId s + 1,
          ticketComments := (ticketComments s)(i := ticketComments s i @
            [\<lparr>id_c = nextCommentId s, ticketId = i, author = msg_sender e, content = c,
              createdAt_c = block_timestamp e\<rparr>]),
          emitted := emitted s @ [CommentAdded i (nextCommentId s) (msg_sender e)]\<rparr>"
      by (auto simp add: op transact_addComment addComment_result split: if_splits)
    have "id_c k < nextCommentId s + 1" if "k \<in> set (ticketComments s j)" for j k
    proof -
      from assms that have "id_c k < nextCommentId s"
        by (auto simp add: comment_ids_below_def)
      then show ?thesis using lt by (rule less_trans)
    qed
    with lt show ?thesis
      unfolding s' by (auto simp add: comment_ids_below_def)
  qed
qed

lemma comment_ids_below_run:
  "comment_ids_below s \<Longrightarrow> comment_ids_below (run s cs)"
proof (induction cs arbitrary: s)
  case Nil
  then show ?case by simp
next
  case (Cons c cs)
  obtain e op where c: "c = (e, op)" by (cases c)
  from Cons.prems have "comment_ids_below (snd (transact e op s))"
    by (rule comment_ids_below_transact)
  then show ?case using Cons.IH c by simp
qed

lemma comment_ids_below_reachable: "comment_ids_below (run (constructor d) cs)"
  by (rule comment_ids_below_run) (simp add: comment_ids_below_def constructor_def)

lemma nextCommentId_transact:
  "unat (nextCommentId (snd (transact e op s))) \<le> Suc (unat (nextCommentId s))"
proof (cases "\<exists>i c. op = AddComment i c")
  case False
  with transact_comments [of op e s] show ?thesis by simp
next
  case True
  then obtain i c where op: "op = AddComment i c" by blast
  show ?thesis
    by (simp add: op transact_addComment addComment_result unat_inc)
qed

lemma nextCommentId_run:
  "unat (nextCommentId (run s cs)) \<le> unat (nextCommentId s) + length cs"
proof (induction cs arbitrary: s)
  case Nil
  then show ?case by simp
next
  case (Cons c cs)
  obtain e op where c: "c = (e, op)" by (cases c)
  from Cons.IH [of "snd (transact e op s)"] nextCommentId_transact [of e op s] c
  show ?case by simp
qed

text \<open>
  C6. In every storage reached by a run from the constructor and for every ticket that
  exists there, \<open>addComment\<close> with empty content reverts with an error of the category
  InvalidArgument, the storage as it was; with non-empty content it succeeds and appends
  one comment to the list of the ticket, after the comments already there, which stay
  as they are and in their order, as do the lists of the other tickets; the id of the
  new comment is the comment counter, which no stored comment of any ticket has. The
  increment of the counter is checked, so the call reverts when the counter is
  \<open>2^256 - 1\<close>; the counter is at most one more than the number of calls of the run, so
  that this needs a run of \<open>2^256 - 2\<close> calls.
\<close>

theorem addComment_spec:
  assumes "s = run (constructor d) cs" and "id_t (tickets s i) \<noteq> 0"
  shows "(\<exists>err. addComment e i [] s = (Inl err, s) \<and> category_of err = InvalidArgument)
       \<and> (c \<noteq> [] \<and> nextCommentId s \<noteq> - 1 \<longrightarrow>
            (\<exists>s'. addComment e i c s = (Inr (), s')
               \<and> ticketComments s' i = ticketComments s i @
                    [\<lparr>id_c = nextCommentId s, ticketId = i, author = msg_sender e,
                      content = c, createdAt_c = block_timestamp e\<rparr>]
               \<and> (\<forall>j. j \<noteq> i \<longrightarrow> ticketComments s' j = ticketComments s j)
               \<and> unused_comment_id s (nextCommentId s)))
       \<and> unat (nextCommentId s) \<le> Suc (length cs)"
proof -
  have "id_c k \<noteq> nextCommentId s" if "k \<in> set (ticketComments s j)" for j k
  proof -
    from comment_ids_below_reachable [of d cs] assms(1) that
    have "id_c k < nextCommentId s"
      by (simp add: comment_ids_below_def)
    then show ?thesis by simp
  qed
  then have "unused_comment_id s (nextCommentId s)"
    by (simp add: unused_comment_id_def)
  moreover have "unat (nextCommentId s) \<le> Suc (length cs)"
    using nextCommentId_run [of "constructor d" cs] assms(1) by (simp add: constructor_def)
  ultimately show ?thesis
    using assms(2) by (simp add: addComment_result)
qed

theorem addComment_spec_witness:
  "id_t (tickets commented_ticket 1) \<noteq> 0
   \<and> nextCommentId commented_ticket = 2
   \<and> (\<exists>err. addComment bob_env 1 [] commented_ticket = (Inl err, commented_ticket)
         \<and> category_of err = InvalidArgument)
   \<and> (\<exists>s'. addComment bob_env 1 ''fixed'' commented_ticket = (Inr (), s')
         \<and> ticketComments s' 1 =
             [\<lparr>id_c = 1, ticketId = 1, author = 5, content = ''still broken'', createdAt_c = 1500\<rparr>,
              \<lparr>id_c = 2, ticketId = 1, author = 7, content = ''fixed'', createdAt_c = 2500\<rparr>])
   \<and> unused_comment_id commented_ticket 2"
proof -
  have n: "''fixed'' \<noteq> [] \<and> nextCommentId commented_ticket \<noteq> - 1"
    by (simp add: commented_ticket_facts)
  note t = addComment_spec [OF commented_ticket_def commented_ticket_facts(1),
      of bob_env "''fixed''"]
  from t have "\<exists>err. addComment bob_env 1 [] commented_ticket = (Inl err, commented_ticket)
         \<and> category_of err = InvalidArgument"
    by blast
  moreover from t n
  have "\<exists>s'. addComment bob_env 1 ''fixed'' commented_ticket = (Inr (), s')
         \<and> ticketComments s' 1 = ticketComments commented_ticket 1 @
              [\<lparr>id_c = nextCommentId commented_ticket, ticketId = 1, author = msg_sender bob_env,
                content = ''fixed'', createdAt_c = block_timestamp bob_env\<rparr>]
         \<and> unused_comment_id commented_ticket (nextCommentId commented_ticket)"
    by blast
  ultimately show ?thesis
    by (auto simp add: commented_ticket_facts bob_env_def)
qed

section \<open>Creating tickets\<close>

lemma transact_nextTicketId:
  "nextTicketId (snd (transact e op s)) =
     (case op of
        CreateTicket ttl descr att \<Rightarrow>
          if nextTicketId s = - 1 then nextTicketId s else nextTicketId s + 1
      | _ \<Rightarrow> nextTicketId s)"
  by (cases op)
     (simp_all add: transact_view,
      simp_all add: transact_def no_output_def createTicket_result updateStatus_def
        assignTicket_def resolveTicket_def closeTicket_def reopenTicket_def addComment_def
        setUserRole_def stmt_defs)

lemma transact_new_id:
  "new_ids (fst (transact e op s) # rs) =
     (case op of
        CreateTicket ttl descr att \<Rightarrow>
          if nextTicketId s = - 1 then new_ids rs else nextTicketId s # new_ids rs
      | _ \<Rightarrow> new_ids rs)"
  by (cases op)
     (simp_all add: transact_view_result,
      simp_all add: transact_def no_output_def createTicket_result updateStatus_def
        assignTicket_def resolveTicket_def closeTicket_def reopenTicket_def addComment_def
        setUserRole_def stmt_defs)

lemma upt_shift: "[a ..< a + Suc k] = a # [Suc a ..< Suc a + k]"
  by (subst upt_rec) simp

lemma new_ids_run:
  "map unat (new_ids (results s cs)) =
     [unat (nextTicketId s) ..< unat (nextTicketId s) + length (new_ids (results s cs))]"
proof (induction cs arbitrary: s)
  case Nil
  then show ?case by simp
next
  case (Cons c cs)
  obtain e op where c: "c = (e, op)" by (cases c)
  let ?s = "snd (transact e op s)"
  note IH = Cons.IH [of ?s]
  show ?case
  proof (cases "(\<exists>ttl descr att. op = CreateTicket ttl descr att) \<and> nextTicketId s \<noteq> - 1")
    case True
    then have "new_ids (results s (c # cs)) = nextTicketId s # new_ids (results ?s cs)"
      and "unat (nextTicketId ?s) = Suc (unat (nextTicketId s))"
      by (auto simp add: c transact_new_id transact_nextTicketId unat_inc)
    with IH show ?thesis
      by (simp only: list.map length_Cons upt_shift)
  next
    case False
    then have "new_ids (results s (c # cs)) = new_ids (results ?s cs)"
      and "nextTicketId ?s = nextTicketId s"
      by (auto simp add: c transact_new_id transact_nextTicketId split: operation.splits)
    with IH show ?thesis by simp
  qed
qed

text \<open>
  C7. In every run from the constructor, the ids that the successful \<open>createTicket\<close>
  calls return are, read as numbers and in the order of the calls, 1, 2, ..., n: the n-th
  created ticket has id n, and the ids increase strictly. A successful \<open>createTicket\<close>
  returns the ticket counter and stores under that id a ticket with that id, the caller
  as creator, no assignee (the zero address), the given strings, status Open, and
  \<open>createdAt\<close> and \<open>updatedAt\<close> equal to the timestamp of the call.
\<close>

theorem createTicket_spec:
  "map unat (new_ids (results (constructor d) cs))
     = [1 ..< Suc (length (new_ids (results (constructor d) cs)))]
   \<and> sorted_wrt (<) (new_ids (results (constructor d) cs))
   \<and> (\<forall>i s'. createTicket e ttl descr att s = (Inr i, s') \<longrightarrow>
         i = nextTicketId s
         \<and> tickets s' i =
             \<lparr>id_t = i, creator = msg_sender e, assignedTo = 0, title = ttl,
              description = descr, attachmentHash = att, status = Open,
              createdAt = block_timestamp e, updatedAt = block_timestamp e\<rparr>
         \<and> unat (nextTicketId s') = Suc (unat i))"
proof -
  let ?ids = "new_ids (results (constructor d) cs)"
  have n: "map unat ?ids = [1 ..< Suc (length ?ids)]"
    using new_ids_run [of "constructor d" cs] by (simp add: constructor_def)
  have "sorted_wrt (<) (map unat ?ids)"
    by (simp only: n sorted_wrt_upt)
  moreover have "(\<lambda>x y :: uint256. unat x < unat y) = (<)"
    by (simp add: fun_eq_iff word_less_nat_alt)
  ultimately have "sorted_wrt (<) ?ids"
    by (simp add: sorted_wrt_map)
  moreover have "\<forall>i s'. createTicket e ttl descr att s = (Inr i, s') \<longrightarrow>
         i = nextTicketId s
         \<and> tickets s' i =
             \<lparr>id_t = i, creator = msg_sender e, assignedTo = 0, title = ttl,
              description = descr, attachmentHash = att, status = Open,
              createdAt = block_timestamp e, updatedAt = block_timestamp e\<rparr>
         \<and> unat (nextTicketId s') = Suc (unat i)"
    by (auto simp add: createTicket_result unat_inc split: if_splits)
  ultimately show ?thesis using n by blast
qed

theorem createTicket_spec_witness:
  "new_ids (results (constructor deployer) three_tickets) = [1, 2, 3]
   \<and> sorted_wrt (<) (new_ids (results (constructor deployer) three_tickets))
   \<and> createTicket alice_env ''Printer jam'' ''Qm1'' [] (constructor deployer)
       = (Inr 1, one_ticket)
   \<and> tickets one_ticket 1 =
       \<lparr>id_t = 1, creator = 5, assignedTo = 0, title = ''Printer jam'', description = ''Qm1'',
        attachmentHash = [], status = Open, createdAt = 1500, updatedAt = 1500\<rparr>"
proof -
  have ids: "new_ids (results (constructor deployer) three_tickets) = [1, 2, 3]"
    by (simp add: three_tickets_def demo_defs createTicket_result closeTicket_def stmt_defs)
  have c: "createTicket alice_env ''Printer jam'' ''Qm1'' [] (constructor deployer)
       = (Inr 1, one_ticket)"
    by (simp add: demo_defs createTicket_result stmt_defs)
  note t = createTicket_spec [of deployer three_tickets alice_env "''Printer jam''" "''Qm1''" "[]"
      "constructor deployer"]
  from t have "sorted_wrt (<) (new_ids (results (constructor deployer) three_tickets))"
    by blast
  moreover from t c have "tickets one_ticket 1 =
       \<lparr>id_t = 1, creator = msg_sender alice_env, assignedTo = 0, title = ''Printer jam'',
        description = ''Qm1'', attachmentHash = [], status = Open,
        createdAt = block_timestamp alice_env, updatedAt = block_timestamp alice_env\<rparr>"
    by blast
  ultimately show ?thesis using ids c by (simp add: alice_env_def)
qed

section \<open>A call that fails changes nothing\<close>

lemma dispatch_failure_state:
  "dispatch e op s = (Inl err, s') \<Longrightarrow> s' = s"
  by (cases op)
     (auto simp add: no_output_def createTicket_def updateStatus_def assignTicket_def
        resolveTicket_def closeTicket_def reopenTicket_def addComment_def setUserRole_def
        getTicketComments_def getTicket_def getAllTickets_def stmt_defs
        split: if_splits sum.splits)

text \<open>
  C8. For every operation, caller and storage: when the call fails, with whatever error,
  the storage after the call is the storage before it. This holds of the call as the
  ledger applies it (\<open>transact\<close>, where a revert restores the storage), and already of
  the body of each function (\<open>dispatch\<close>): every check of a function stands before its
  first write, so the storage a body has reached when it reverts is the one it started
  from.
\<close>

theorem failure_leaves_state:
  "(dispatch e op s = (Inl err, s') \<longrightarrow> s' = s)
   \<and> (fst (transact e op s) = Inl err \<longrightarrow> snd (transact e op s) = s)"
  by (auto simp add: dispatch_failure_state transact_def split: prod.splits sum.splits)

theorem failure_leaves_state_witness:
  "dispatch manager_env (ReopenTicket 1) one_ticket = (Inl OnlyClosedOrResolved, one_ticket)
   \<and> fst (transact manager_env (ReopenTicket 1) one_ticket) = Inl OnlyClosedOrResolved
   \<and> snd (transact manager_env (ReopenTicket 1) one_ticket) = one_ticket
   \<and> fst (transact alice_env (CloseTicket 1) one_ticket) = Inl NotAuthorizedManagerOnly
   \<and> snd (transact alice_env (CloseTicket 1) one_ticket) = one_ticket"
proof -
  let ?d = "dispatch manager_env (ReopenTicket 1) one_ticket"
  have f: "fst ?d = Inl OnlyClosedOrResolved"
    by (simp add: no_output_def reopenTicket_def stmt_defs one_ticket_exists one_ticket_fields
          one_ticket_roles manager_env_def)
  then have d: "?d = (Inl OnlyClosedOrResolved, snd ?d)"
    by (metis prod.collapse)
  with failure_leaves_state [of manager_env "ReopenTicket 1" one_ticket OnlyClosedOrResolved "snd ?d"]
  have s: "snd ?d = one_ticket" by blast
  have t1: "fst (transact manager_env (ReopenTicket 1) one_ticket) = Inl OnlyClosedOrResolved"
    using d s by (simp add: transact_def)
  have t2: "fst (transact alice_env (CloseTicket 1) one_ticket) = Inl NotAuthorizedManagerOnly"
    by (simp add: transact_def no_output_def closeTicket_def stmt_defs one_ticket_roles alice_env_def)
  from failure_leaves_state [of manager_env "ReopenTicket 1" one_ticket OnlyClosedOrResolved one_ticket] t1
  have "snd (transact manager_env (ReopenTicket 1) one_ticket) = one_ticket" by blast
  moreover from failure_leaves_state [of alice_env "CloseTicket 1" one_ticket NotAuthorizedManagerOnly one_ticket] t2
  have "snd (transact alice_env (CloseTicket 1) one_ticket) = one_ticket" by blast
  ultimately show ?thesis using d s t1 t2 by simp
qed

section \<open>Comments leave the tickets alone\<close>

text \<open>
  C9. A successful \<open>addComment\<close> changes no ticket record (so neither the status nor
  \<open>updatedAt\<close> of the ticket commented on), nor the ticket id counter, nor the role table:
  the storage after it is the storage before it with one comment appended to the
  comment list of the given ticket and the comment id counter incremented (and the
  event \<open>CommentAdded\<close> appended to the log).
\<close>

theorem addComment_frame:
  assumes "addComment e i c s = (Inr (), s')"
  shows "s' = s\<lparr>ticketComments := (ticketComments s)(i := ticketComments s i @
                   [\<lparr>id_c = nextCommentId s, ticketId = i, author = msg_sender e, content = c,
                     createdAt_c = block_timestamp e\<rparr>]),
                nextCommentId := nextCommentId s + 1,
                emitted := emitted s @ [CommentAdded i (nextCommentId s) (msg_sender e)]\<rparr>
       \<and> tickets s' = tickets s \<and> nextTicketId s' = nextTicketId s \<and> userRoles s' = userRoles s
       \<and> status (tickets s' i) = status (tickets s i)
       \<and> updatedAt (tickets s' i) = updatedAt (tickets s i)"
  using assms by (auto simp add: addComment_def stmt_defs split: if_splits)

theorem addComment_frame_witness:
  "addComment alice_env 1 ''still broken'' one_ticket =
     (Inr (), snd (addComment alice_env 1 ''still broken'' one_ticket))
   \<and> tickets (snd (addComment alice_env 1 ''still broken'' one_ticket)) = tickets one_ticket
   \<and> nextTicketId (snd (addComment alice_env 1 ''still broken'' one_ticket)) = nextTicketId one_ticket
   \<and> nextCommentId (snd (addComment alice_env 1 ''still broken'' one_ticket)) = 2
   \<and> ticketComments (snd (addComment alice_env 1 ''still broken'' one_ticket)) 1 =
       [\<lparr>id_c = 1, ticketId = 1, author = 5, content = ''still broken'', createdAt_c = 1500\<rparr>]"
proof -
  have ok: "addComment alice_env 1 ''still broken'' one_ticket =
     (Inr (), snd (addComment alice_env 1 ''still broken'' one_ticket))"
    by (simp add: addComment_def stmt_defs one_ticket_exists demo_defs createTicket_def)
  have n: "nextCommentId one_ticket = 1" "ticketComments one_ticket 1 = []"
    by (simp_all add: demo_defs createTicket_def stmt_defs)
  from addComment_frame [OF ok] n show ?thesis
    using ok by (simp add: alice_env_def)
qed

section \<open>Role changes leave the tickets alone\<close>

text \<open>
  C10. A \<open>setUserRole\<close> by a Manager succeeds and changes the entry of the role table for
  the given address and nothing else: no ticket, no comment, no counter. So the role of
  an assignee is checked by \<open>assignTicket\<close> alone: when the assignee of an existing
  ticket is given the role User, the ticket keeps that assignee, who no longer holds
  Manager, and an \<open>updateStatus\<close> of that assignee still succeeds.
\<close>

theorem setUserRole_frame:
  assumes "userRoles s (msg_sender e) = Manager"
  shows "setUserRole e a r s = (Inr (), s\<lparr>userRoles := (userRoles s)(a := r)\<rparr>)
       \<and> (id_t (tickets s i) \<noteq> 0 \<and> assignedTo (tickets s i) = a \<and> msg_sender e' = a \<longrightarrow>
            (\<exists>s'. setUserRole e a User s = (Inr (), s')
               \<and> tickets s' = tickets s \<and> assignedTo (tickets s' i) = a \<and> userRoles s' a = User
               \<and> (\<exists>s''. updateStatus e' i st s' = (Inr (), s'') \<and> status (tickets s'' i) = st)))"
  using assms by (auto simp add: setUserRole_def updateStatus_def stmt_defs)

theorem setUserRole_frame_witness:
  "userRoles assigned_ticket (msg_sender manager_env) = Manager
   \<and> id_t (tickets assigned_ticket 1) \<noteq> 0
   \<and> assignedTo (tickets assigned_ticket 1) = 7
   \<and> creator (tickets assigned_ticket 1) \<noteq> 7
   \<and> msg_sender bob_env = 7
   \<and> setUserRole manager_env 7 User assigned_ticket
       = (Inr (), assigned_ticket\<lparr>userRoles := (userRoles assigned_ticket)(7 := User)\<rparr>)
   \<and> (\<exists>s'. setUserRole manager_env 7 User assigned_ticket = (Inr (), s')
         \<and> assignedTo (tickets s' 1) = 7 \<and> userRoles s' 7 = User
         \<and> (\<exists>s''. updateStatus bob_env 1 Resolved s' = (Inr (), s'')
               \<and> status (tickets s'' 1) = Resolved))"
proof -
  have m: "userRoles assigned_ticket (msg_sender manager_env) = Manager"
    by (simp add: assigned_ticket_facts manager_env_def)
  have b: "msg_sender bob_env = 7"
    by (simp add: bob_env_def)
  note t = setUserRole_frame [OF m, of 7 User 1 bob_env Resolved]
  from t have "setUserRole manager_env 7 User assigned_ticket
       = (Inr (), assigned_ticket\<lparr>userRoles := (userRoles assigned_ticket)(7 := User)\<rparr>)"
    by blast
  moreover from t assigned_ticket_facts(1,2) b
  have "\<exists>s'. setUserRole manager_env 7 User assigned_ticket = (Inr (), s')
         \<and> assignedTo (tickets s' 1) = 7 \<and> userRoles s' 7 = User
         \<and> (\<exists>s''. updateStatus bob_env 1 Resolved s' = (Inr (), s'')
               \<and> status (tickets s'' 1) = Resolved)"
    by blast
  ultimately show ?thesis
    using m b assigned_ticket_facts by simp
qed

end
